theory Spec2Isabelle
  imports
    Complex_Main
    "HOL-Library.Char_ord"
    "HOL-Library.List_Lexorder"
    "HOL-Library.Product_Lexorder"
    "HOL-Library.Sublist"
begin

section \<open>Values of the dashboard (GeradorRelatorio.py)\<close>

text \<open>
  Quantities are Python floats. A float is modelled as an exact real number or one of the
  three IEEE special values; rounding to 53 bits is not modelled, the special values and
  the rules that produce them (division by zero, \<open>inf - inf\<close>) are.
  Signed zeros are identified.
\<close>

datatype fl = Fin real | PInf | NInf | NaN

text \<open>
  A spreadsheet cell as pandas hands it to \<open>Series.apply\<close>: a missing value
  (\<open>None\<close>; the float \<open>nan\<close> is \<open>CFloat NaN\<close>), an integer, a float, or text.
  Integer cells come from 64-bit columns, so \<open>float(val)\<close> cannot overflow on them.
\<close>

datatype cell = CNone | CInt int | CFloat fl | CStr string

fun fneg :: "fl \<Rightarrow> fl" where
  "fneg (Fin a) = Fin (- a)"
| "fneg PInf = NInf"
| "fneg NInf = PInf"
| "fneg NaN = NaN"

fun fadd :: "fl \<Rightarrow> fl \<Rightarrow> fl" where
  "fadd (Fin a) (Fin b) = Fin (a + b)"
| "fadd (Fin a) PInf = PInf"
| "fadd (Fin a) NInf = NInf"
| "fadd PInf (Fin b) = PInf"
| "fadd PInf PInf = PInf"
| "fadd PInf NInf = NaN"
| "fadd NInf (Fin b) = NInf"
| "fadd NInf NInf = NInf"
| "fadd NInf PInf = NaN"
| "fadd NaN y = NaN"
| "fadd x NaN = NaN"

definition fsub :: "fl \<Rightarrow> fl \<Rightarrow> fl" where
  "fsub x y = fadd x (fneg y)"

definition inf_sign :: "bool \<Rightarrow> fl" where
  "inf_sign pos = (if pos then PInf else NInf)"

fun fmul :: "fl \<Rightarrow> fl \<Rightarrow> fl" where
  "fmul (Fin a) (Fin b) = Fin (a * b)"
| "fmul (Fin a) PInf = (if a = 0 then NaN else inf_sign (0 < a))"
| "fmul (Fin a) NInf = (if a = 0 then NaN else inf_sign (a < 0))"
| "fmul PInf (Fin b) = (if b = 0 then NaN else inf_sign (0 < b))"
| "fmul NInf (Fin b) = (if b = 0 then NaN else inf_sign (b < 0))"
| "fmul PInf PInf = PInf"
| "fmul PInf NInf = NInf"
| "fmul NInf PInf = NInf"
| "fmul NInf NInf = PInf"
| "fmul NaN y = NaN"
| "fmul x NaN = NaN"

text \<open>
  Division of float columns (numpy): a zero divisor gives \<open>nan\<close> for \<open>0 / 0\<close> and an
  infinity otherwise; nothing is raised.
\<close>

fun fdiv :: "fl \<Rightarrow> fl \<Rightarrow> fl" where
  "fdiv (Fin a) (Fin b) =
     (if b \<noteq> 0 then Fin (a / b) else if a = 0 then NaN else inf_sign (0 < a))"
| "fdiv (Fin a) PInf = Fin 0"
| "fdiv (Fin a) NInf = Fin 0"
| "fdiv PInf (Fin b) = inf_sign (0 \<le> b)"
| "fdiv NInf (Fin b) = inf_sign (b < 0)"
| "fdiv PInf PInf = NaN"
| "fdiv PInf NInf = NaN"
| "fdiv NInf PInf = NaN"
| "fdiv NInf NInf = NaN"
| "fdiv NaN y = NaN"
| "fdiv x NaN = NaN"

text \<open>\<open>x > 0\<close> on floats: false for \<open>nan\<close>.\<close>

fun fgt0 :: "fl \<Rightarrow> bool" where
  "fgt0 (Fin a) = (0 < a)"
| "fgt0 PInf = True"
| "fgt0 NInf = False"
| "fgt0 NaN = False"

text \<open>\<open>Series.sum()\<close>: missing values are skipped, the empty sum is 0.\<close>

definition fsum :: "fl list \<Rightarrow> fl" where
  "fsum xs = foldl fadd (Fin 0) (filter (\<lambda>x. x \<noteq> NaN) xs)"

text \<open>\<open>fillna(0)\<close> on one value.\<close>

definition fillna0 :: "fl \<Rightarrow> fl" where
  "fillna0 x = (if x = NaN then Fin 0 else x)"

section \<open>Text helpers of Python\<close>

text \<open>
  Strings are byte strings: ASCII as it is, any other character as its UTF-8 bytes, which
  keeps substring tests and the order of strings as Python has them on code points.
  Case folding and the classes of white space and digits are the ASCII ones.
\<close>

definition is_digit :: "char \<Rightarrow> bool" where
  "is_digit c = (CHR ''0'' \<le> c \<and> c \<le> CHR ''9'')"

definition is_space :: "char \<Rightarrow> bool" where
  "is_space c = (let n = (of_char c :: nat) in (9 \<le> n \<and> n \<le> 13) \<or> (28 \<le> n \<and> n \<le> 32))"

definition lower_char :: "char \<Rightarrow> char" where
  "lower_char c = (if CHR ''A'' \<le> c \<and> c \<le> CHR ''Z'' then char_of (of_char c + (32::nat)) else c)"

definition py_lower :: "string \<Rightarrow> string" where
  "py_lower s = map lower_char s"

definition py_strip :: "string \<Rightarrow> string" where
  "py_strip s = rev (dropWhile is_space (rev (dropWhile is_space s)))"

text \<open>\<open>kw in col\<close>: \<open>kw\<close> occurs in \<open>col\<close> as a contiguous piece.\<close>

fun py_in :: "string \<Rightarrow> string \<Rightarrow> bool" where
  "py_in kw [] = (kw = [])"
| "py_in kw (c # cs) = (prefix kw (c # cs) \<or> py_in kw cs)"

text \<open>
  \<open>s.replace(old, new)\<close> for a non-empty \<open>old\<close> (every call of the source passes one):
  the occurrences are replaced from the left, without overlap, and the text put in is not
  scanned again.
\<close>

function py_replace :: "string \<Rightarrow> string \<Rightarrow> string \<Rightarrow> string" where
  "py_replace old new [] = []"
| "py_replace old new (c # cs) =
     (if old \<noteq> [] \<and> prefix old (c # cs)
      then new @ py_replace old new (drop (length old) (c # cs))
      else c # py_replace old new cs)"
  by pat_completeness auto
termination
  by (relation "measure (\<lambda>(old, new, s). length s)") (auto simp: neq_Nil_conv)

text \<open>The value of a string of decimal digits, most significant digit first.\<close>

definition digit_val :: "char \<Rightarrow> nat" where
  "digit_val c = of_char c - 48"

definition digits_val :: "string \<Rightarrow> nat" where
  "digits_val ds = foldl (\<lambda>n c. 10 * n + digit_val c) 0 ds"


section \<open>float(text)\<close>

text \<open>
  Python's \<open>float\<close> on a string, after its own removal of surrounding white space:
  an optional sign, then \<open>inf\<close>, \<open>infinity\<close> or \<open>nan\<close> in any case, or a decimal number
  \<open>[digitpart] "." digitpart | digitpart ["."]\<close> with an optional exponent, where a
  digitpart is digits that may be separated by single underscores. \<open>None\<close> is the
  \<open>ValueError\<close>.
\<close>

definition is_digitpart :: "string \<Rightarrow> bool" where
  "is_digitpart s =
     (s \<noteq> [] \<and> is_digit (hd s) \<and> is_digit (last s) \<and>
      list_all (\<lambda>c. is_digit c \<or> c = CHR ''_'') s \<and> \<not> py_in ''__'' s)"

definition digitpart_val :: "string \<Rightarrow> nat" where
  "digitpart_val s = digits_val (filter is_digit s)"

definition parse_exponent :: "string \<Rightarrow> int option" where
  "parse_exponent s =
     (case s of
        [] \<Rightarrow> None
      | c # cs \<Rightarrow>
          if c = CHR ''-'' then (if is_digitpart cs then Some (- int (digitpart_val cs)) else None)
          else if c = CHR ''+'' then (if is_digitpart cs then Some (int (digitpart_val cs)) else None)
          else if is_digitpart s then Some (int (digitpart_val s)) else None)"

definition parse_number :: "string \<Rightarrow> real option" where
  "parse_number s =
     (let ip = takeWhile (\<lambda>c. c \<noteq> CHR ''.'') s;
          r = dropWhile (\<lambda>c. c \<noteq> CHR ''.'') s
      in case r of
           [] \<Rightarrow> if is_digitpart ip then Some (real (digitpart_val ip)) else None
         | _ # fp \<Rightarrow>
             if (is_digitpart ip \<and> (fp = [] \<or> is_digitpart fp)) \<or> (ip = [] \<and> is_digitpart fp)
             then Some (real (digitpart_val ip)
                        + real (digitpart_val fp) / 10 ^ length (filter is_digit fp))
             else None)"

definition scale10 :: "real \<Rightarrow> int \<Rightarrow> real" where
  "scale10 v k = (if 0 \<le> k then v * 10 ^ nat k else v / 10 ^ nat (- k))"

definition parse_floatnumber :: "string \<Rightarrow> real option" where
  "parse_floatnumber s =
     (let m = takeWhile (\<lambda>c. c \<noteq> CHR ''e'' \<and> c \<noteq> CHR ''E'') s;
          r = dropWhile (\<lambda>c. c \<noteq> CHR ''e'' \<and> c \<noteq> CHR ''E'') s
      in case r of
           [] \<Rightarrow> parse_number m
         | _ # ex \<Rightarrow>
             (case parse_number m of
                None \<Rightarrow> None
              | Some v \<Rightarrow> map_option (scale10 v) (parse_exponent ex)))"

definition parse_abs :: "string \<Rightarrow> fl option" where
  "parse_abs s =
     (if py_lower s = ''inf'' \<or> py_lower s = ''infinity'' then Some PInf
      else if py_lower s = ''nan'' then Some NaN
      else map_option Fin (parse_floatnumber s))"

definition py_float :: "string \<Rightarrow> fl option" where
  "py_float s =
     (case py_strip s of
        [] \<Rightarrow> None
      | c # cs \<Rightarrow>
          if c = CHR ''-'' then map_option fneg (parse_abs cs)
          else if c = CHR ''+'' then parse_abs cs
          else parse_abs (c # cs))"

section \<open>limpar_numero\<close>

definition pd_isna :: "cell \<Rightarrow> bool" where
  "pd_isna val = (val = CNone \<or> val = CFloat NaN)"

text \<open>
  The text of a string cell after lines 47 and 48: \<open>strip()\<close>, \<open>R$\<close> and blanks removed,
  dots removed, commas turned into dots.
\<close>

definition limpar_texto :: "string \<Rightarrow> string" where
  "limpar_texto s =
     (let val = py_replace '' '' [] (py_replace ''R$'' [] (py_strip s))
      in py_replace '','' ''.'' (py_replace ''.'' [] val))"

text \<open>
  \<open>limpar_numero\<close>: the \<open>try\<close> around \<open>float(val)\<close> turns the \<open>ValueError\<close> into 0.0.
\<close>

definition limpar_numero :: "cell \<Rightarrow> fl" where
  "limpar_numero val =
     (if pd_isna val then Fin 0
      else case val of
             CInt i \<Rightarrow> Fin (of_int i)
           | CFloat x \<Rightarrow> x
           | CStr s \<Rightarrow> (case py_float (limpar_texto s) of Some x \<Rightarrow> x | None \<Rightarrow> Fin 0)
           | CNone \<Rightarrow> Fin 0)"

section \<open>mapear_linha\<close>

text \<open>
  \<open>re.findall(r'\d+', s)\<close>: the maximal runs of digits of \<open>s\<close>, from the left; the first
  argument is the run being read.
\<close>

fun digit_runs :: "string \<Rightarrow> string \<Rightarrow> string list" where
  "digit_runs cur [] = (if cur = [] then [] else [cur])"
| "digit_runs cur (c # cs) =
     (if is_digit c then digit_runs (cur @ [c]) cs
      else (if cur = [] then [] else [cur]) @ digit_runs [] cs)"

definition findall_digits :: "string \<Rightarrow> string list" where
  "findall_digits s = digit_runs [] s"

text \<open>\<open>int(text)\<close> on the texts \<open>findall\<close> returns; \<open>None\<close> is the \<open>ValueError\<close>.\<close>

definition py_int :: "string \<Rightarrow> int option" where
  "py_int s = (if s \<noteq> [] \<and> list_all is_digit s then Some (int (digits_val s)) else None)"

text \<open>
  \<open>mapear_linha\<close>, on the text \<open>str(forno)\<close> that line 32 builds from the cell. The
  \<open>except\<close> branch is the \<open>None\<close> of \<open>py_int\<close>.
\<close>

definition mapear_linha :: "string \<Rightarrow> string" where
  "mapear_linha forno_str =
     (case findall_digits forno_str of
        [] \<Rightarrow> ''Outros''
      | n # _ \<Rightarrow>
          (case py_int n of
             None \<Rightarrow> ''Outros''
           | Some forno_int \<Rightarrow>
               if forno_int = 10 \<or> forno_int = 11 then ''Linha 4 e 5''
               else if forno_int = 12 \<or> forno_int = 13 then ''Linha 6''
               else ''Outros''))"

section \<open>identificar_coluna\<close>

definition col_norm :: "string \<Rightarrow> string" where
  "col_norm c = py_strip (py_lower c)"

text \<open>The dictionary \<open>mapa_cols\<close>: a later column replaces an earlier one under the same key.\<close>

definition mapa_cols :: "string list \<Rightarrow> (string \<rightharpoonup> string)" where
  "mapa_cols columns = foldl (\<lambda>m c. m(col_norm c \<mapsto> c)) Map.empty columns"

text \<open>The inner loop: the first normalised name that contains \<open>kw\<close>.\<close>

fun busca_col :: "string \<Rightarrow> string list \<Rightarrow> string option" where
  "busca_col kw [] = None"
| "busca_col kw (col # cols) = (if py_in kw col then Some col else busca_col kw cols)"

text \<open>
  The outer loop over the keywords; \<open>mapa col\<close> is \<open>mapa_cols[col]\<close>. The third
  parameter of the source, \<open>nome_padrao_exibicao\<close>, is not used by it and is left out.
\<close>

fun busca_kw :: "(string \<rightharpoonup> string) \<Rightarrow> string list \<Rightarrow> string list \<Rightarrow> string option" where
  "busca_kw mapa colunas_df [] = None"
| "busca_kw mapa colunas_df (kw # kws) =
     (case busca_col kw colunas_df of
        Some col \<Rightarrow> mapa col
      | None \<Rightarrow> busca_kw mapa colunas_df kws)"

definition identificar_coluna :: "string list \<Rightarrow> string list \<Rightarrow> string option" where
  "identificar_coluna columns keywords =
     busca_kw (mapa_cols columns) (map col_norm columns) keywords"


section \<open>The tables\<close>

text \<open>
  A row of an uploaded table, read through the columns that \<open>identificar_coluna\<close> bound:
  the furnace cell as the text \<open>str(forno)\<close>, the team and the reason as text, the quantity
  as the raw cell. Rows whose team or reason cell is empty are not modelled.
\<close>

record linha_prod =
  forno_p :: string
  equipe_p :: string
  metragem :: cell

record linha_ret =
  motivo :: string
  m2 :: cell
  equipe_r :: string
  forno_r :: string

text \<open>The rows after lines 230-231 and 238-239, with the columns the aggregation reads.\<close>

record prod_row =
  Linha_p :: string
  Equipe_p :: string
  metragem_real :: fl

record ret_row =
  Linha_r :: string
  Equipe_r :: string
  Motivo :: string
  m2_real :: fl

definition tratar_prod :: "linha_prod \<Rightarrow> prod_row" where
  "tratar_prod r =
     \<lparr>Linha_p = mapear_linha (forno_p r), Equipe_p = equipe_p r,
      metragem_real = limpar_numero (metragem r)\<rparr>"

definition tratar_ret :: "linha_ret \<Rightarrow> ret_row" where
  "tratar_ret r =
     \<lparr>Linha_r = mapear_linha (forno_r r), Equipe_r = equipe_r r, Motivo = motivo r,
      m2_real = limpar_numero (m2 r)\<rparr>"

text \<open>A row of \<open>df_final\<close>; \<open>Pct_Realizado\<close> is the column \<open>% Realizado\<close>.\<close>

record agg_row =
  Linha :: string
  Equipe :: string
  M2_Produzido :: fl
  M2_Retido :: fl
  Meta_M2 :: fl
  Saldo_M2 :: fl
  Pct_Realizado :: fl

text \<open>
  \<open>df.groupby(keys)[col].sum().reset_index()\<close>: one row per key, the keys in ascending
  order, each with the sum of its rows.
\<close>

definition groupby_sum :: "('r \<Rightarrow> 'k::linorder) \<Rightarrow> ('r \<Rightarrow> fl) \<Rightarrow> 'r list \<Rightarrow> ('k \<times> fl) list" where
  "groupby_sum chave valor df =
     map (\<lambda>k. (k, fsum (map valor (filter (\<lambda>r. chave r = k) df))))
         (sort (remdups (map chave df)))"

text \<open>\<open>df.groupby(key).size()\<close>.\<close>

definition groupby_size :: "('r \<Rightarrow> 'k::linorder) \<Rightarrow> 'r list \<Rightarrow> ('k \<times> nat) list" where
  "groupby_size chave df =
     map (\<lambda>k. (k, length (filter (\<lambda>r. chave r = k) df))) (sort (remdups (map chave df)))"

text \<open>
  \<open>pd.merge(l, r, on=keys, how='left')\<close> of two grouped tables (their keys are unique):
  every row of \<open>l\<close>, in the order of \<open>l\<close>, with the value of \<open>r\<close> or \<open>nan\<close>.
\<close>

definition merge_left :: "('k \<times> 'a) list \<Rightarrow> ('k \<times> fl) list \<Rightarrow> ('k \<times> 'a \<times> fl) list" where
  "merge_left l r = map (\<lambda>(k, a). (k, a, case map_of r k of Some v \<Rightarrow> v | None \<Rightarrow> NaN)) l"

text \<open>Lines 291-295 on one merged row: \<open>fillna(0)\<close>, then the three computed columns.\<close>

definition linha_final :: "real \<Rightarrow> (string \<times> string) \<times> fl \<times> fl \<Rightarrow> agg_row" where
  "linha_final META_PCT x =
     (case x of ((l, e), p, r) \<Rightarrow>
        let prod = fillna0 p; ret = fillna0 r; meta = fmul prod (Fin (META_PCT / 100))
        in \<lparr>Linha = l, Equipe = e, M2_Produzido = prod, M2_Retido = ret, Meta_M2 = meta,
            Saldo_M2 = fsub meta ret, Pct_Realizado = fmul (fdiv ret prod) (Fin 100)\<rparr>)"

definition prod_agg :: "prod_row list \<Rightarrow> ((string \<times> string) \<times> fl) list" where
  "prod_agg df_prod = groupby_sum (\<lambda>r. (Linha_p r, Equipe_p r)) metragem_real df_prod"

definition ret_agg :: "ret_row list \<Rightarrow> ((string \<times> string) \<times> fl) list" where
  "ret_agg df_ret_filtrado = groupby_sum (\<lambda>r. (Linha_r r, Equipe_r r)) m2_real df_ret_filtrado"

text \<open>\<open>df_final\<close>, lines 289-295.\<close>

definition kpi_geral :: "real \<Rightarrow> prod_row list \<Rightarrow> ret_row list \<Rightarrow> agg_row list" where
  "kpi_geral META_PCT df_prod df_ret_filtrado =
     map (linha_final META_PCT) (merge_left (prod_agg df_prod) (ret_agg df_ret_filtrado))"

text \<open>Line 261.\<close>

definition excluir_motivos :: "string list \<Rightarrow> ret_row list \<Rightarrow> ret_row list" where
  "excluir_motivos motivos_excluir df_ret =
     (if motivos_excluir \<noteq> [] then filter (\<lambda>r. Motivo r \<notin> set motivos_excluir) df_ret
      else df_ret)"

section \<open>adicionar_linha_geral\<close>

text \<open>The team name of the synthetic row, \<open>M\<close>, e with acute accent (two bytes), \<open>dia Geral\<close>.\<close>

definition media_geral :: string where
  "media_geral = ''M'' @ [CHR 0xC3, CHR 0xA9] @ ''dia Geral''"

definition ordem :: "string \<Rightarrow> nat" where
  "ordem x = (if x = media_geral then 1 else 0)"

definition row_geral :: "string \<Rightarrow> real \<Rightarrow> agg_row list \<Rightarrow> agg_row" where
  "row_geral nome_linha meta_pct df_filt =
     (let total_prod = fsum (map M2_Produzido df_filt);
          total_ret = fsum (map M2_Retido df_filt);
          meta_m2_total = fmul total_prod (Fin (meta_pct / 100));
          saldo_total = fsub meta_m2_total total_ret;
          pct_geral = (if fgt0 total_prod then fmul (fdiv total_ret total_prod) (Fin 100)
                       else Fin 0)
      in \<lparr>Linha = nome_linha, Equipe = media_geral, M2_Produzido = total_prod,
          M2_Retido = total_ret, Meta_M2 = meta_m2_total, Saldo_M2 = saldo_total,
          Pct_Realizado = pct_geral\<rparr>)"

text \<open>\<open>sort_values\<close> on several columns is stable, as \<open>sort_key\<close> is.\<close>

definition adicionar_linha_geral :: "agg_row list \<Rightarrow> string \<Rightarrow> real \<Rightarrow> agg_row list" where
  "adicionar_linha_geral df_original nome_linha meta_pct =
     (let df_filt = filter (\<lambda>r. Linha r = nome_linha) df_original
      in if df_filt = [] then df_filt
         else sort_key (\<lambda>r. (ordem (Equipe r), Equipe r))
                (df_filt @ [row_geral nome_linha meta_pct df_filt]))"

section \<open>The reason drill-down (lines 399-407)\<close>

record spec_row =
  Equipe_s :: string
  M2_Retido_s :: fl
  Qtd_Ocorrencias :: nat

definition analise_motivo :: "prod_row list \<Rightarrow> ret_row list \<Rightarrow> string \<Rightarrow> spec_row list" where
  "analise_motivo df_prod df_ret motivo_alvo =
     (let df_spec = filter (\<lambda>r. Motivo r = motivo_alvo) df_ret;
          todas_equipes = sort (remdups (map Equipe_p df_prod));
          spec_agg = groupby_sum Equipe_r m2_real df_spec;
          spec_count = groupby_size Equipe_r df_spec
      in map (\<lambda>e. \<lparr>Equipe_s = e,
                    M2_Retido_s = fillna0 (case map_of spec_agg e of Some v \<Rightarrow> v | None \<Rightarrow> NaN),
                    Qtd_Ocorrencias = (case map_of spec_count e of Some n \<Rightarrow> n | None \<Rightarrow> 0)\<rparr>)
             todas_equipes)"

section \<open>The main script (lines 182-306, 399-432)\<close>

datatype arquivo = Producao | Retidos

datatype campo = Campo_Equipe | Campo_Forno | Campo_Metragem | Campo_Motivo | Campo_M2

text \<open>
  One message of \<open>erros_mapeamento\<close>; the source's text names the file (\<open>Arquivo ...:\<close>) and
  the column that was not found.
\<close>

datatype erro = Coluna_nao_encontrada arquivo campo

text \<open>Python's \<open>not col\<close> on the result of \<open>identificar_coluna\<close>.\<close>

definition nao :: "string option \<Rightarrow> bool" where
  "nao col = (case col of None \<Rightarrow> True | Some c \<Rightarrow> c = [])"

definition kw_m2 :: string where
  "kw_m2 = ''m'' @ [CHR 0xC2, CHR 0xB2]"

definition erros_mapeamento :: "string list \<Rightarrow> string list \<Rightarrow> erro list" where
  "erros_mapeamento cols_prod cols_ret =
     (let col_equipe_p = identificar_coluna cols_prod [''equipe'', ''team'', ''turno''];
          col_forno_p = identificar_coluna cols_prod [''forno'', ''linha'', ''maq''];
          col_metragem = identificar_coluna cols_prod [''metragem'', ''m2'', ''prod''];
          col_motivo = identificar_coluna cols_ret [''motivo'', ''defeito'', ''causa''];
          col_m2 = identificar_coluna cols_ret [kw_m2, ''m2'', ''metragem'', ''quant''];
          col_equipe_r = identificar_coluna cols_ret [''equipe'', ''team'', ''turno''];
          col_forno_r = identificar_coluna cols_ret [''forno'', ''linha'', ''maq'']
      in (if nao col_equipe_p then [Coluna_nao_encontrada Producao Campo_Equipe] else [])
       @ (if nao col_forno_p then [Coluna_nao_encontrada Producao Campo_Forno] else [])
       @ (if nao col_metragem then [Coluna_nao_encontrada Producao Campo_Metragem] else [])
       @ (if nao col_motivo then [Coluna_nao_encontrada Retidos Campo_Motivo] else [])
       @ (if nao col_m2 then [Coluna_nao_encontrada Retidos Campo_M2] else [])
       @ (if nao col_equipe_r then [Coluna_nao_encontrada Retidos Campo_Equipe] else [])
       @ (if nao col_forno_r then [Coluna_nao_encontrada Retidos Campo_Forno] else []))"

record config =
  META_PCT :: real
  motivos_excluir :: "string list"
  motivo_alvo :: string

record saida =
  df_final :: "agg_row list"
  df_tabela_final :: "agg_row list"
  spec_final :: "spec_row list option"

text \<open>
  The script from the column binding on. \<open>Inl\<close> is the list shown before \<open>st.stop()\<close>;
  \<open>Inr\<close> holds the tables the three tabs show.
\<close>

definition painel ::
  "string list \<Rightarrow> linha_prod list \<Rightarrow> string list \<Rightarrow> linha_ret list \<Rightarrow> config \<Rightarrow> erro list + saida"
where
  "painel cols_prod linhas_prod cols_ret linhas_ret cfg =
     (let erros = erros_mapeamento cols_prod cols_ret
      in if erros \<noteq> [] then Inl erros
         else
           let df_prod = map tratar_prod linhas_prod;
               df_ret = map tratar_ret linhas_ret;
               df_ret_filtrado = excluir_motivos (motivos_excluir cfg) df_ret;
               final = kpi_geral (META_PCT cfg) df_prod df_ret_filtrado;
               df_l45_completo = adicionar_linha_geral final ''Linha 4 e 5'' (META_PCT cfg);
               df_l6_completo = adicionar_linha_geral final ''Linha 6'' (META_PCT cfg)
           in Inr \<lparr>df_final = final,
                   df_tabela_final = df_l45_completo @ df_l6_completo,
                   spec_final =
                     (if motivo_alvo cfg \<noteq> [] \<and> motivo_alvo cfg \<noteq> ''(Selecione um motivo)''
                      then Some (analise_motivo df_prod df_ret (motivo_alvo cfg))
                      else None)\<rparr>)"

section \<open>Example tables\<close>







section \<open>Auxiliary notions of the proofs\<close>


text \<open>The key of the summary: line and team.\<close>

definition chave_p :: "prod_row \<Rightarrow> string \<times> string" where
  "chave_p r = (Linha_p r, Equipe_p r)"


definition chave :: "agg_row \<Rightarrow> string \<times> string" where
  "chave r = (Linha r, Equipe r)"


section \<open>Properties of limpar_numero\<close>






text \<open>
  Claim C9. On a numeric cell, integer or float, \<open>nan\<close> included, applying \<open>limpar_numero\<close>
  to its own result changes nothing; on every text it returns a float, the one \<open>float\<close>
  reads or 0.0.
\<close>

theorem limpar_numero_idempotente:
  "limpar_numero (CFloat (limpar_numero (CInt i))) = limpar_numero (CInt i)
   \<and> limpar_numero (CFloat (limpar_numero (CFloat x))) = limpar_numero (CFloat x)
   \<and> limpar_numero (CStr s) =
       (case py_float (limpar_texto s) of Some v \<Rightarrow> v | None \<Rightarrow> Fin 0)"
  by (cases x) (simp_all add: limpar_numero_def pd_isna_def)

theorem limpar_numero_idempotente_witness:
  "limpar_numero (CFloat (limpar_numero (CFloat NaN))) = Fin 0
   \<and> limpar_numero (CFloat (limpar_numero (CInt 7))) = Fin 7
   \<and> limpar_numero (CStr ''abc'') = Fin 0"
proof -
  have a: "py_float (limpar_texto ''abc'') = None"
    by code_simp
  have b: "limpar_numero (CFloat NaN) = Fin 0" "limpar_numero (CInt 7) = Fin 7"
    by (simp_all add: limpar_numero_def pd_isna_def)
  show ?thesis
    using limpar_numero_idempotente [of 7 NaN "''abc''"] a b by simp
qed

section \<open>Properties of mapear_linha\<close>








section \<open>Properties of identificar_coluna\<close>

lemma py_in_sublist: "py_in kw s \<longleftrightarrow> (\<exists>ps ss. s = ps @ kw @ ss)"
proof -
  have "py_in kw s \<longleftrightarrow> sublist kw s"
    by (induction s) (auto simp: sublist_Cons_right)
  then show ?thesis by (simp add: sublist_def)
qed

















section \<open>Properties of the column check\<close>



section \<open>The percentage of a row without production\<close>

text \<open>
  Claim C2. Line 295 divides the retained by the produced quantity of every team row
  without a guard; only the overall row (line 97) is guarded. With two teams of
  \<open>Linha 4 e 5\<close> that produced nothing, one of them with 5 retained: the team rows carry
  \<open>nan\<close> and \<open>inf\<close> as \<open>% Realizado\<close>, the overall row 0.
\<close>

theorem pct_realizado_producao_zero:
  "painel [''Forno'', ''Equipe'', ''Metragem'']
     [\<lparr>forno_p = ''Forno 10'', equipe_p = ''A'', metragem = CNone\<rparr>,
      \<lparr>forno_p = ''Forno 10'', equipe_p = ''B'', metragem = CInt 0\<rparr>]
     [''Motivo'', ''M2'', ''Equipe'', ''Forno'']
     [\<lparr>motivo = ''Bolha'', m2 = CInt 5, equipe_r = ''B'', forno_r = ''10''\<rparr>]
     \<lparr>META_PCT = 0.5, motivos_excluir = [], motivo_alvo = []\<rparr>
   = Inr \<lparr>df_final =
        [\<lparr>Linha = ''Linha 4 e 5'', Equipe = ''A'', M2_Produzido = Fin 0, M2_Retido = Fin 0,
          Meta_M2 = Fin 0, Saldo_M2 = Fin 0, Pct_Realizado = NaN\<rparr>,
         \<lparr>Linha = ''Linha 4 e 5'', Equipe = ''B'', M2_Produzido = Fin 0, M2_Retido = Fin 5,
          Meta_M2 = Fin 0, Saldo_M2 = Fin (- 5), Pct_Realizado = PInf\<rparr>],
      df_tabela_final =
        [\<lparr>Linha = ''Linha 4 e 5'', Equipe = ''A'', M2_Produzido = Fin 0, M2_Retido = Fin 0,
          Meta_M2 = Fin 0, Saldo_M2 = Fin 0, Pct_Realizado = NaN\<rparr>,
         \<lparr>Linha = ''Linha 4 e 5'', Equipe = ''B'', M2_Produzido = Fin 0, M2_Retido = Fin 5,
          Meta_M2 = Fin 0, Saldo_M2 = Fin (- 5), Pct_Realizado = PInf\<rparr>,
         \<lparr>Linha = ''Linha 4 e 5'', Equipe = media_geral, M2_Produzido = Fin 0, M2_Retido = Fin 5,
          Meta_M2 = Fin 0, Saldo_M2 = Fin (- 5), Pct_Realizado = Fin 0\<rparr>],
      spec_final = None\<rparr>"
  by code_simp

section \<open>The lines of the final table\<close>




section \<open>The overall row\<close>









section \<open>The left join of the summary\<close>






lemma chaves_agg:
  "map fst (prod_agg dp) = sort (remdups (map chave_p dp))"
  by (simp add: prod_agg_def groupby_sum_def chave_p_def [abs_def] comp_def)











section \<open>Excluded reasons\<close>






end
